theory Spec2Isabelle
  imports Complex_Main "HOL-Library.Log_Nat"
begin

section \<open>Position accounting of the wallet: model of the source\<close>

text \<open>
  The development embeds the portfolio accounting of the wallet application:
  the Mongoose model \<^verbatim>\<open>server/models/Wallet.js\<close> (schema, the three
  virtuals and the three instance methods) and the buy and sell routes of
  \<^verbatim>\<open>server/routes/wallet.js\<close>.

  Conventions of the embedding.
  \<^item> The code is embedded twice. In the first embedding a JavaScript \<^verbatim>\<open>Number\<close>
    is a \<^typ>\<open>real\<close> and arithmetic is exact; it carries the statements that are the
    code's own expressions, operation for operation. In the second embedding (the
    virtuals, and the constants with prefix \<open>dbl_\<close>) every arithmetic operation is
    rounded to the nearest IEEE 754 binary64 value, ties to even, as JavaScript does; it
    carries the statements about the totals, which compare different computations of the
    same quantity. Neither embedding has \<^verbatim>\<open>NaN\<close> or an infinity: a result beyond the
    largest double and a division by zero are outside the model. The only division whose
    divisor is not guarded is \<^verbatim>\<open>totalCost / totalAmount\<close> in
    \<^verbatim>\<open>addOrUpdateCurrency\<close>; every statement that depends on this quotient has a
    divisor above 0 (by its hypotheses, or by the validation of the route).
  \<^item> A string is a list of bytes; \<^verbatim>\<open>toUpperCase\<close> and \<^verbatim>\<open>trim\<close> are the
    ASCII parts of the JavaScript functions.
  \<^item> A \<^verbatim>\<open>Date\<close> is its number of milliseconds since the epoch, an \<^typ>\<open>int\<close>;
    each \<^verbatim>\<open>new Date()\<close> of the source is a parameter of the model, and so is the
    calendar of the process, which \<^verbatim>\<open>setDate\<close> and \<^verbatim>\<open>getDate\<close> consult.
  \<^item> A mutated document is returned: methods take the wallet and give the new wallet,
    route handlers give the wallet as stored after the request together with the response.
    The database itself (lookup of the wallet by user, failures of \<^verbatim>\<open>save\<close>, the
    stored transaction documents) is outside the model.
\<close>

subsection \<open>Strings\<close>

text \<open>\<^verbatim>\<open>String.prototype.toUpperCase\<close> on ASCII: the 26 lower-case letters change.\<close>

definition upper_char :: "char \<Rightarrow> char" where
  "upper_char c =
     (case map_of (zip ''abcdefghijklmnopqrstuvwxyz'' ''ABCDEFGHIJKLMNOPQRSTUVWXYZ'') c of
        None \<Rightarrow> c
      | Some u \<Rightarrow> u)"

definition toUpperCase :: "string \<Rightarrow> string" where
  "toUpperCase s = map upper_char s"

text \<open>
  \<^verbatim>\<open>trim\<close> on ASCII: tab, line feed, vertical tab, form feed, carriage return and
  space are removed at both ends.
\<close>

definition isWhiteSpace :: "char \<Rightarrow> bool" where
  "isWhiteSpace c = (c \<in> set [CHR 0x09, CHR 0x0A, CHR 0x0B, CHR 0x0C, CHR 0x0D, CHR '' ''])"

definition trim :: "string \<Rightarrow> string" where
  "trim s = rev (dropWhile isWhiteSpace (rev (dropWhile isWhiteSpace s)))"

subsection \<open>Double arithmetic\<close>

text \<open>
  Rounding of a real number to binary64. \<open>binade y\<close> is the exponent \<open>e\<close> with
  \<open>2 powi e \<le> y < 2 powi (e + 1)\<close>; the doubles of that binade are the multiples of
  \<open>2 powi (e - 52)\<close>, and below the smallest normal binade (\<open>e = - 1022\<close>) the spacing
  stays \<open>2 powi (- 1074)\<close>. The nearest multiple is taken, the even one at a tie.
\<close>

definition round_half_even :: "real \<Rightarrow> int" where
  "round_half_even q =
     (let f = \<lfloor>q\<rfloor>; r = q - of_int f
      in if r < 1/2 then f else if r > 1/2 then f + 1 else if even f then f else f + 1)"

definition binade :: "real \<Rightarrow> int" where
  "binade y = (if 1 \<le> y then bitlen \<lfloor>y\<rfloor> - 1 else - bitlen (\<lceil>1 / y\<rceil> - 1))"

definition round64 :: "real \<Rightarrow> real" where
  "round64 x =
     (if x = 0 then 0
      else let e = max (binade \<bar>x\<bar>) (- 1022);
               u = 2 powi (e - 52)
           in sgn x * of_int (round_half_even (\<bar>x\<bar> / u)) * u)"

text \<open>The four arithmetic operators of JavaScript on doubles.\<close>

definition fadd :: "real \<Rightarrow> real \<Rightarrow> real" where
  "fadd a b = round64 (a + b)"

definition fsub :: "real \<Rightarrow> real \<Rightarrow> real" where
  "fsub a b = round64 (a - b)"

definition fmul :: "real \<Rightarrow> real \<Rightarrow> real" where
  "fmul a b = round64 (a * b)"

definition fdiv :: "real \<Rightarrow> real \<Rightarrow> real" where
  "fdiv a b = round64 (a / b)"

subsection \<open>The wallet schema\<close>

text \<open>
  One element of \<^verbatim>\<open>currencies\<close>. The schema stores \<^verbatim>\<open>symbol\<close> upper-cased
  and trimmed and \<^verbatim>\<open>name\<close> trimmed (\<^verbatim>\<open>uppercase: true, trim: true\<close>); the
  setters run when a plain object is pushed onto the array.
\<close>

record currency =
  symbol :: string
  name :: string
  amount :: real
  averageBuyPrice :: real
  currentPrice :: real
  "value" :: real
  profitLoss :: real
  profitLossPercentage :: real

text \<open>One element of \<^verbatim>\<open>portfolioHistory[i].currencies\<close>.\<close>

record history_currency =
  h_symbol :: string
  h_amount :: real
  h_price :: real
  h_value :: real

text \<open>One element of \<^verbatim>\<open>portfolioHistory\<close>.\<close>

record history_record =
  date :: int
  totalValue :: real
  h_currencies :: "history_currency list"

record wallet =
  totalBalance :: real
  currencies :: "currency list"
  portfolioHistory :: "history_record list"

text \<open>The document made at registration: \<^verbatim>\<open>new Wallet({user, currencies: [], settings})\<close>.\<close>

definition new_wallet :: wallet where
  "new_wallet = \<lparr>totalBalance = 0, currencies = [], portfolioHistory = []\<rparr>"

subsection \<open>Virtuals\<close>

text \<open>
  The three getters, in double arithmetic: each \<^verbatim>\<open>reduce\<close> adds from the left,
  starting at 0, and every sum, product, difference and quotient is rounded.
\<close>

definition totalPortfolioValue :: "wallet \<Rightarrow> real" where
  "totalPortfolioValue w = foldl (\<lambda>total c. fadd total (value c)) 0 (currencies w)"




subsection \<open>Methods\<close>

text \<open>
  \<^verbatim>\<open>Array.prototype.find\<close> is \<^const>\<open>find\<close>. The object it returns is the array
  element itself, so the assignments to \<^verbatim>\<open>existingCurrency\<close> change the first
  element that matches: \<open>update_first\<close>.
\<close>

fun update_first :: "('a \<Rightarrow> bool) \<Rightarrow> ('a \<Rightarrow> 'a) \<Rightarrow> 'a list \<Rightarrow> 'a list" where
  "update_first P f [] = []"
| "update_first P f (x # xs) = (if P x then f x # xs else x # update_first P f xs)"

text \<open>The branch \<^verbatim>\<open>if (existingCurrency)\<close>: buying more of a held currency.\<close>

definition buy_more :: "real \<Rightarrow> real \<Rightarrow> currency \<Rightarrow> currency" where
  "buy_more amt price existingCurrency =
     (let totalAmount = amount existingCurrency + amt;
          totalCost = (amount existingCurrency * averageBuyPrice existingCurrency) + (amt * price);
          c1 = existingCurrency\<lparr>amount := totalAmount\<rparr>;
          c2 = c1\<lparr>averageBuyPrice := totalCost / totalAmount\<rparr>;
          c3 = c2\<lparr>currentPrice := price\<rparr>;
          c4 = c3\<lparr>value := totalAmount * price\<rparr>;
          c5 = c4\<lparr>profitLoss := value c4 - (totalAmount * averageBuyPrice c4)\<rparr>
      in c5\<lparr>profitLossPercentage :=
               (if averageBuyPrice c5 > 0
                then ((price - averageBuyPrice c5) / averageBuyPrice c5) * 100
                else 0)\<rparr>)"

text \<open>The \<^verbatim>\<open>else\<close> branch: the object pushed for a new currency, after the schema's setters.\<close>

definition new_currency :: "string \<Rightarrow> string \<Rightarrow> real \<Rightarrow> real \<Rightarrow> currency" where
  "new_currency symb nm amt price =
     \<lparr>symbol = toUpperCase (trim symb), name = trim nm, amount = amt,
      averageBuyPrice = price, currentPrice = price, value = amt * price,
      profitLoss = 0, profitLossPercentage = 0\<rparr>"

definition addOrUpdateCurrency :: "wallet \<Rightarrow> string \<Rightarrow> string \<Rightarrow> real \<Rightarrow> real \<Rightarrow> wallet" where
  "addOrUpdateCurrency w symb nm amt price =
     (case find (\<lambda>c. symbol c = symb) (currencies w) of
        Some existingCurrency \<Rightarrow>
          w\<lparr>currencies := update_first (\<lambda>c. symbol c = symb) (buy_more amt price) (currencies w)\<rparr>
      | None \<Rightarrow>
          w\<lparr>currencies := currencies w @ [new_currency symb nm amt price]\<rparr>)"

text \<open>
  The body of the \<^verbatim>\<open>forEach\<close> of \<^verbatim>\<open>updateCurrencyPrices\<close>. \<^verbatim>\<open>priceData\<close>
  is an object used as a dictionary; a missing key reads \<^verbatim>\<open>undefined\<close>, and
  \<^verbatim>\<open>if (newPrice)\<close> is false for \<^verbatim>\<open>undefined\<close> and for 0.
\<close>

definition update_price :: "(string \<rightharpoonup> real) \<Rightarrow> currency \<Rightarrow> currency" where
  "update_price priceData c =
     (case priceData (symbol c) of
        None \<Rightarrow> c
      | Some newPrice \<Rightarrow>
          if newPrice \<noteq> 0 then
            (let c1 = c\<lparr>currentPrice := newPrice\<rparr>;
                 c2 = c1\<lparr>value := amount c1 * newPrice\<rparr>;
                 c3 = c2\<lparr>profitLoss := value c2 - (amount c2 * averageBuyPrice c2)\<rparr>
             in c3\<lparr>profitLossPercentage :=
                      (if averageBuyPrice c3 > 0
                       then ((newPrice - averageBuyPrice c3) / averageBuyPrice c3) * 100
                       else 0)\<rparr>)
          else c)"

definition updateCurrencyPrices :: "wallet \<Rightarrow> (string \<rightharpoonup> real) \<Rightarrow> wallet" where
  "updateCurrencyPrices w priceData =
     w\<lparr>currencies := map (update_price priceData) (currencies w)\<rparr>"

definition snapshot_of :: "wallet \<Rightarrow> int \<Rightarrow> history_record" where
  "snapshot_of w now =
     \<lparr>date = now, totalValue = totalPortfolioValue w,
      h_currencies = map (\<lambda>c. \<lparr>h_symbol = symbol c, h_amount = amount c,
                                h_price = currentPrice c, h_value = value c\<rparr>) (currencies w)\<rparr>"

text \<open>
  \<^verbatim>\<open>recordPortfolioSnapshot\<close> reads the clock twice: \<open>now\<close> dates the snapshot,
  \<open>now'\<close> is the reading the cutoff is computed from. \<open>minusDays n d\<close> stands for the
  date that \<^verbatim>\<open>d.setDate(d.getDate() - n)\<close> leaves in \<open>d\<close>: \<open>n\<close> days earlier on the
  local calendar of the process, at the same time of day. It depends on the time zone and
  its clock changes, which the source does not fix, so it is a parameter (where the clock
  never changes it is \<open>d - n * 86400000\<close>).
\<close>

definition recordPortfolioSnapshot ::
  "(int \<Rightarrow> int \<Rightarrow> int) \<Rightarrow> wallet \<Rightarrow> int \<Rightarrow> int \<Rightarrow> wallet" where
  "recordPortfolioSnapshot minusDays w now now' =
     (let pushed = portfolioHistory w @ [snapshot_of w now];
          cutoffDate = minusDays 365 now'
      in w\<lparr>portfolioHistory := filter (\<lambda>record. date record \<ge> cutoffDate) pushed\<rparr>)"

subsection \<open>Routes\<close>

text \<open>
  The part of the \<^verbatim>\<open>Transaction\<close> document that the handlers compute from the request
  (the fee is 1 percent of the fiat amount).
\<close>

record transaction =
  t_type :: string
  t_symbol :: string
  t_name :: string
  t_amount :: real
  t_price :: real
  fiat_amount :: real
  fees_amount :: real

text \<open>
  The 400 responses: \<^verbatim>\<open>'Validation failed'\<close> of \<^verbatim>\<open>handleValidationErrors\<close>,
  \<^verbatim>\<open>'Currency not found'\<close> and \<^verbatim>\<open>'Insufficient balance'\<close> of the sell handler.
\<close>

datatype error = Validation_failed | Currency_not_found | Insufficient_balance

text \<open>
  The validation chains of the two routes, on the body after the \<^verbatim>\<open>trim()\<close> sanitizers
  (\<^verbatim>\<open>isFloat({min})\<close> on a number is a lower bound).
\<close>

definition buy_validation :: "string \<Rightarrow> string \<Rightarrow> real \<Rightarrow> real \<Rightarrow> real \<Rightarrow> bool" where
  "buy_validation symb nm amt price fiatAmount =
     (symb \<noteq> [] \<and> 2 \<le> length symb \<and> length symb \<le> 10 \<and> nm \<noteq> []
      \<and> amt \<ge> 0.000001 \<and> price \<ge> 0.01 \<and> fiatAmount \<ge> 0.01)"

definition sell_validation :: "string \<Rightarrow> real \<Rightarrow> real \<Rightarrow> bool" where
  "sell_validation symb amt price = (symb \<noteq> [] \<and> amt \<ge> 0.000001 \<and> price \<ge> 0.01)"

text \<open>The handler of \<^verbatim>\<open>POST /buy\<close>, from the wallet found for the user.\<close>

definition buy_handler ::
  "wallet \<Rightarrow> string \<Rightarrow> string \<Rightarrow> real \<Rightarrow> real \<Rightarrow> real \<Rightarrow> wallet \<times> (error + transaction)" where
  "buy_handler w symb nm amt price fiatAmount =
     (let tx = \<lparr>t_type = ''buy'', t_symbol = toUpperCase symb, t_name = nm, t_amount = amt,
                t_price = price, fiat_amount = fiatAmount, fees_amount = fiatAmount * 0.01\<rparr>
      in (addOrUpdateCurrency w (toUpperCase symb) nm amt price, Inr tx))"

definition post_buy ::
  "wallet \<Rightarrow> string \<Rightarrow> string \<Rightarrow> real \<Rightarrow> real \<Rightarrow> real \<Rightarrow> wallet \<times> (error + transaction)" where
  "post_buy w symb nm amt price fiatAmount =
     (if \<not> buy_validation (trim symb) (trim nm) amt price fiatAmount
      then (w, Inl Validation_failed)
      else buy_handler w (trim symb) (trim nm) amt price fiatAmount)"

text \<open>The assignments to \<^verbatim>\<open>currency\<close> of the sell handler (``reduce currency amount'').\<close>

definition sell_currency :: "real \<Rightarrow> currency \<Rightarrow> currency" where
  "sell_currency amt c =
     (let c1 = c\<lparr>amount := amount c - amt\<rparr>;
          c2 = c1\<lparr>value := amount c1 * currentPrice c1\<rparr>;
          c3 = c2\<lparr>profitLoss := value c2 - (amount c2 * averageBuyPrice c2)\<rparr>
      in c3\<lparr>profitLossPercentage :=
               (if averageBuyPrice c3 > 0
                then ((currentPrice c3 - averageBuyPrice c3) / averageBuyPrice c3) * 100
                else 0)\<rparr>)"

text \<open>
  The handler of \<^verbatim>\<open>POST /sell\<close>, from the wallet found for the user. Both early returns
  come before the first assignment; the wallet of the result is the stored one.
\<close>

definition sell_handler ::
  "wallet \<Rightarrow> string \<Rightarrow> real \<Rightarrow> real \<Rightarrow> wallet \<times> (error + transaction)" where
  "sell_handler w symb amt price =
     (case find (\<lambda>c. symbol c = toUpperCase symb) (currencies w) of
        None \<Rightarrow> (w, Inl Currency_not_found)
      | Some currency \<Rightarrow>
          if amount currency < amt then (w, Inl Insufficient_balance)
          else
            (let fiatAmount = amt * price;
                 tx = \<lparr>t_type = ''sell'', t_symbol = toUpperCase symb, t_name = name currency,
                       t_amount = amt, t_price = price, fiat_amount = fiatAmount,
                       fees_amount = fiatAmount * 0.01\<rparr>;
                 reduced = update_first (\<lambda>c. symbol c = toUpperCase symb) (sell_currency amt)
                             (currencies w);
                 kept = (if amount (sell_currency amt currency) \<le> 0
                         then filter (\<lambda>c. symbol c \<noteq> toUpperCase symb) reduced
                         else reduced)
             in (w\<lparr>currencies := kept\<rparr>, Inr tx)))"

definition post_sell ::
  "wallet \<Rightarrow> string \<Rightarrow> real \<Rightarrow> real \<Rightarrow> wallet \<times> (error + transaction)" where
  "post_sell w symb amt price =
     (if \<not> sell_validation (trim symb) amt price
      then (w, Inl Validation_failed)
      else sell_handler w (trim symb) amt price)"

subsection \<open>Sequences of operations\<close>

text \<open>
  A buy request, a sell request, or a call of \<^verbatim>\<open>updateCurrencyPrices\<close> with some
  price object; \<open>run\<close> applies a sequence of them to the wallet made at registration.
\<close>

datatype operation =
    Buy string string real real real
  | Sell string real real
  | Prices "string \<rightharpoonup> real"

fun apply_operation :: "wallet \<Rightarrow> operation \<Rightarrow> wallet" where
  "apply_operation w (Buy symb nm amt price fiatAmount) = fst (post_buy w symb nm amt price fiatAmount)"
| "apply_operation w (Sell symb amt price) = fst (post_sell w symb amt price)"
| "apply_operation w (Prices priceData) = updateCurrencyPrices w priceData"

definition run :: "operation list \<Rightarrow> wallet" where
  "run ops = foldl apply_operation new_wallet ops"

text \<open>
  What every currency of a wallet made by such a sequence satisfies: a positive amount, an
  average buy price that is not negative, and a stored profit/loss that agrees with the
  stored value.
\<close>

definition position_ok :: "currency \<Rightarrow> bool" where
  "position_ok c =
     (0 < amount c \<and> 0 \<le> averageBuyPrice c
      \<and> profitLoss c = value c - amount c * averageBuyPrice c)"

definition wallet_ok :: "wallet \<Rightarrow> bool" where
  "wallet_ok w = list_all position_ok (currencies w)"

subsection \<open>The operations in double arithmetic\<close>










definition dbl_sell_currency :: "real \<Rightarrow> currency \<Rightarrow> currency" where
  "dbl_sell_currency amt c =
     (let c1 = c\<lparr>amount := fsub (amount c) amt\<rparr>;
          c2 = c1\<lparr>value := fmul (amount c1) (currentPrice c1)\<rparr>;
          c3 = c2\<lparr>profitLoss := fsub (value c2) (fmul (amount c2) (averageBuyPrice c2))\<rparr>
      in c3\<lparr>profitLossPercentage :=
               (if averageBuyPrice c3 > 0
                then fmul (fdiv (fsub (currentPrice c3) (averageBuyPrice c3))
                                (averageBuyPrice c3)) 100
                else 0)\<rparr>)"







section \<open>Properties\<close>

subsection \<open>Auxiliary facts\<close>

lemmas model_defs =
  run_def new_wallet_def post_buy_def buy_validation_def buy_handler_def
  post_sell_def sell_validation_def sell_handler_def sell_currency_def
  addOrUpdateCurrency_def new_currency_def buy_more_def
  updateCurrencyPrices_def update_price_def
  trim_def isWhiteSpace_def toUpperCase_def upper_char_def

lemma find_update_first:
  assumes "find P xs = Some x" and "\<And>y. P y \<Longrightarrow> P (f y)"
  shows "find P (update_first P f xs) = Some (f x)"
  using assms by (induction xs) (auto split: if_splits)

lemma map_update_first:
  assumes "\<And>y. g (f y) = g y"
  shows "map g (update_first P f xs) = map g xs"
  using assms by (induction xs) simp_all

lemma find_filter_None: "find P (filter (\<lambda>x. \<not> P x) xs) = None"
  by (simp add: find_None_iff)

lemma symbol_sell_currency [simp]: "symbol (sell_currency amt c) = symbol c"
  by (simp add: sell_currency_def Let_def)

lemma averageBuyPrice_sell_currency [simp]:
  "averageBuyPrice (sell_currency amt c) = averageBuyPrice c"
  by (simp add: sell_currency_def Let_def)

lemma amount_sell_currency [simp]: "amount (sell_currency amt c) = amount c - amt"
  by (simp add: sell_currency_def Let_def)

lemma symbol_buy_more [simp]: "symbol (buy_more amt price c) = symbol c"
  by (simp add: buy_more_def Let_def)

lemma symbol_update_price [simp]: "symbol (update_price priceData c) = symbol c"
  by (simp add: update_price_def Let_def split: option.splits)

text \<open>
  The symbol that \<^verbatim>\<open>POST /buy\<close> passes to \<^verbatim>\<open>addOrUpdateCurrency\<close> is trimmed by the
  route's sanitizer and upper-cased by the handler; the schema's setters leave such a
  symbol as it is, so the symbol stored is the symbol looked up.
\<close>

lemma isWhiteSpace_upper_char: "isWhiteSpace (upper_char c) = isWhiteSpace c"
  by (simp add: upper_char_def isWhiteSpace_def)

lemma upper_char_idem: "upper_char (upper_char c) = upper_char c"
  by (simp add: upper_char_def)

lemma dropWhile_isWhiteSpace_upper:
  "dropWhile isWhiteSpace (map upper_char s) = map upper_char (dropWhile isWhiteSpace s)"
  by (simp add: dropWhile_map comp_def isWhiteSpace_upper_char)

lemma trim_toUpperCase: "trim (toUpperCase s) = toUpperCase (trim s)"
  by (simp add: trim_def toUpperCase_def dropWhile_isWhiteSpace_upper rev_map)

lemma last_dropWhile: "dropWhile P xs \<noteq> [] \<Longrightarrow> last (dropWhile P xs) = last xs"
  by (induction xs) (auto split: if_splits)

lemma trim_idem: "trim (trim s) = trim s"
proof -
  define t where "t = dropWhile isWhiteSpace s"
  define u where "u = dropWhile isWhiteSpace (rev t)"
  have t: "t = [] \<or> \<not> isWhiteSpace (hd t)"
    unfolding t_def by (metis dropWhile_eq_self_iff dropWhile_idem)
  have "dropWhile isWhiteSpace (rev u) = rev u"
  proof (cases "u = []")
    case True
    then show ?thesis by simp
  next
    case False
    then have "last u = last (rev t)"
      unfolding u_def by (rule last_dropWhile)
    moreover from False have "t \<noteq> []"
      unfolding u_def by auto
    ultimately have "\<not> isWhiteSpace (hd (rev u))"
      using t False by (simp add: hd_rev last_rev)
    then show ?thesis
      by (simp add: dropWhile_eq_self_iff)
  qed
  then have "rev (dropWhile isWhiteSpace (rev (dropWhile isWhiteSpace (rev u)))) = rev u"
    by (simp add: u_def)
  then show ?thesis
    by (simp add: trim_def t_def u_def)
qed

lemma toUpperCase_idem: "toUpperCase (toUpperCase s) = toUpperCase s"
  by (simp add: toUpperCase_def upper_char_idem)

lemma route_symbol_stored_form:
  "toUpperCase (trim (toUpperCase (trim s))) = toUpperCase (trim s)"
  by (simp add: trim_toUpperCase trim_idem toUpperCase_idem)

lemma find_snoc_new:
  assumes "find P xs = None" and "P x"
  shows "find P (xs @ [x]) = Some x"
  using assms by (induction xs) (auto split: if_splits)

lemma first_buy:
  assumes "find (\<lambda>c. symbol c = symb) (currencies w) = None"
    and "toUpperCase (trim symb) = symb"
  shows "find (\<lambda>c. symbol c = symb) (currencies (addOrUpdateCurrency w symb nm amt price))
           = Some (new_currency symb nm amt price)"
  using assms by (simp add: addOrUpdateCurrency_def find_snoc_new new_currency_def)

lemma second_buy:
  assumes "find (\<lambda>c. symbol c = symb) (currencies w) = None"
    and "toUpperCase (trim symb) = symb"
  shows "find (\<lambda>c. symbol c = symb)
           (currencies (addOrUpdateCurrency (addOrUpdateCurrency w symb nm amt price)
                          symb nm' amt' price'))
           = Some (buy_more amt' price' (new_currency symb nm amt price))"
  using first_buy [OF assms, of nm amt price]
  by (simp add: addOrUpdateCurrency_def [of "addOrUpdateCurrency w symb nm amt price"]
      find_update_first)

subsection \<open>Rejected sells\<close>

text \<open>
  Claim C2. The sell handler answers \<^verbatim>\<open>'Currency not found'\<close> (the spec's
  \<open>UnknownSymbol\<close>) when the wallet has no currency with the upper-cased symbol, and
  \<^verbatim>\<open>'Insufficient balance'\<close> when the amount asked is more than the amount held.
  In both cases the wallet after the request is the wallet before it: all currencies with
  all their fields, and the portfolio history. More generally, whenever the route answers
  with an error (validation included), the wallet is the one before the request.
\<close>

theorem sell_rejected_unchanged:
  "(find (\<lambda>c. symbol c = toUpperCase symb) (currencies w) = None
      \<longrightarrow> sell_handler w symb amt price = (w, Inl Currency_not_found))
   \<and> (\<forall>currency. find (\<lambda>c. symbol c = toUpperCase symb) (currencies w) = Some currency
          \<and> amount currency < amt
      \<longrightarrow> sell_handler w symb amt price = (w, Inl Insufficient_balance))
   \<and> (\<forall>e. snd (post_sell w symb amt price) = Inl e \<longrightarrow> fst (post_sell w symb amt price) = w)"
  by (auto simp: post_sell_def sell_handler_def Let_def split: option.splits if_splits)

theorem sell_rejected_unchanged_witness:
  "find (\<lambda>c. symbol c = toUpperCase ''eth'')
       (currencies (run [Buy ''btc'' ''Bitcoin'' 2 10000 20000])) = None
   \<and> sell_handler (run [Buy ''btc'' ''Bitcoin'' 2 10000 20000]) ''eth'' 1 100
       = (run [Buy ''btc'' ''Bitcoin'' 2 10000 20000], Inl Currency_not_found)
   \<and> (\<exists>currency. find (\<lambda>c. symbol c = toUpperCase ''btc'')
       (currencies (run [Buy ''btc'' ''Bitcoin'' 2 10000 20000])) = Some currency
       \<and> amount currency < 5)
   \<and> sell_handler (run [Buy ''btc'' ''Bitcoin'' 2 10000 20000]) ''btc'' 5 100
       = (run [Buy ''btc'' ''Bitcoin'' 2 10000 20000], Inl Insufficient_balance)
   \<and> snd (post_sell (run [Buy ''btc'' ''Bitcoin'' 2 10000 20000]) ''btc'' 5 100)
       = Inl Insufficient_balance
   \<and> fst (post_sell (run [Buy ''btc'' ''Bitcoin'' 2 10000 20000]) ''btc'' 5 100)
       = run [Buy ''btc'' ''Bitcoin'' 2 10000 20000]"
  using sell_rejected_unchanged [of "''eth''" "run [Buy ''btc'' ''Bitcoin'' 2 10000 20000]" 1 100]
    sell_rejected_unchanged [of "''btc''" "run [Buy ''btc'' ''Bitcoin'' 2 10000 20000]" 5 100]
  by (simp add: model_defs)

subsection \<open>Accepted sells\<close>

text \<open>
  The sell handler computes with the stored \<^verbatim>\<open>currentPrice\<close>; the price of the request
  goes into the transaction only. Selling 1 of 3 BTC at 13000 while the stored price is 12000
  leaves the current price at 12000 and the value at 24000, not 13000 and 26000.
\<close>

theorem sell_sets_currentPrice_counterexample:
  "\<not> isl (snd (sell_handler \<lparr>totalBalance = 0,
        currencies = [\<lparr>symbol = ''BTC'', name = ''Bitcoin'', amount = 3, averageBuyPrice = 11000,
          currentPrice = 12000, value = 36000, profitLoss = 3000,
          profitLossPercentage = 100 / 11\<rparr>],
        portfolioHistory = []\<rparr> ''BTC'' 1 13000))
   \<and> map currentPrice (currencies (fst (sell_handler \<lparr>totalBalance = 0,
        currencies = [\<lparr>symbol = ''BTC'', name = ''Bitcoin'', amount = 3, averageBuyPrice = 11000,
          currentPrice = 12000, value = 36000, profitLoss = 3000,
          profitLossPercentage = 100 / 11\<rparr>],
        portfolioHistory = []\<rparr> ''BTC'' 1 13000))) = [12000]
   \<and> map value (currencies (fst (sell_handler \<lparr>totalBalance = 0,
        currencies = [\<lparr>symbol = ''BTC'', name = ''Bitcoin'', amount = 3, averageBuyPrice = 11000,
          currentPrice = 12000, value = 36000, profitLoss = 3000,
          profitLossPercentage = 100 / 11\<rparr>],
        portfolioHistory = []\<rparr> ''BTC'' 1 13000))) = [24000]
   \<and> (12000::real) \<noteq> 13000 \<and> (24000::real) \<noteq> (3 - 1) * 13000"
  by (simp add: model_defs)

text \<open>
  Claim C1, as amended. For a wallet holding the symbol and a sell with
  \<open>0 < amt \<le> amount held\<close> and \<open>0 \<le> price\<close>, the sell succeeds; the amount of the
  currency is decreased by the amount sold, its current price stays the stored one, its
  value is the remaining amount times that stored price, and its profit/loss is that
  value minus the remaining amount times the average buy price. The currency stays in the
  wallet with these fields when something remains, and is removed when nothing remains.
\<close>

theorem sell_of_held_currency:
  assumes "find (\<lambda>c. symbol c = toUpperCase symb) (currencies w) = Some currency"
    and "0 < amt" and "amt \<le> amount currency" and "0 \<le> price"
  shows "\<exists>w' tx c'. sell_handler w symb amt price = (w', Inr tx)
           \<and> c' = sell_currency amt currency
           \<and> find (\<lambda>c. symbol c = toUpperCase symb) (currencies w')
               = (if amt < amount currency then Some c' else None)
           \<and> amount c' = amount currency - amt
           \<and> currentPrice c' = currentPrice currency
           \<and> value c' = amount c' * currentPrice currency
           \<and> profitLoss c' = value c' - amount c' * averageBuyPrice currency"
  using assms
  by (simp add: sell_handler_def Let_def find_update_first find_filter_None)
    (simp add: sell_currency_def Let_def)

theorem sell_of_held_currency_witness:
  "find (\<lambda>c. symbol c = toUpperCase ''btc'')
     (currencies \<lparr>totalBalance = 0,
        currencies = [\<lparr>symbol = ''BTC'', name = ''Bitcoin'', amount = 3, averageBuyPrice = 11000,
          currentPrice = 12000, value = 36000, profitLoss = 3000,
          profitLossPercentage = 100 / 11\<rparr>],
        portfolioHistory = []\<rparr>)
     = Some \<lparr>symbol = ''BTC'', name = ''Bitcoin'', amount = 3, averageBuyPrice = 11000,
          currentPrice = 12000, value = 36000, profitLoss = 3000,
          profitLossPercentage = 100 / 11\<rparr>
   \<and> (0::real) < 1
   \<and> (1::real) \<le> amount \<lparr>symbol = ''BTC'', name = ''Bitcoin'', amount = 3, averageBuyPrice = 11000,
          currentPrice = 12000, value = 36000, profitLoss = 3000,
          profitLossPercentage = 100 / 11\<rparr>
   \<and> (0::real) \<le> 13000
   \<and> find (\<lambda>c. symbol c = toUpperCase ''btc'')
       (currencies (fst (sell_handler \<lparr>totalBalance = 0,
        currencies = [\<lparr>symbol = ''BTC'', name = ''Bitcoin'', amount = 3, averageBuyPrice = 11000,
          currentPrice = 12000, value = 36000, profitLoss = 3000,
          profitLossPercentage = 100 / 11\<rparr>],
        portfolioHistory = []\<rparr> ''btc'' 1 13000)))
     = Some \<lparr>symbol = ''BTC'', name = ''Bitcoin'', amount = 2, averageBuyPrice = 11000,
          currentPrice = 12000, value = 24000, profitLoss = 2000,
          profitLossPercentage = 100 / 11\<rparr>"
  using sell_of_held_currency [of "''btc''" "\<lparr>totalBalance = 0,
        currencies = [\<lparr>symbol = ''BTC'', name = ''Bitcoin'', amount = 3, averageBuyPrice = 11000,
          currentPrice = 12000, value = 36000, profitLoss = 3000,
          profitLossPercentage = 100 / 11\<rparr>],
        portfolioHistory = []\<rparr>" "\<lparr>symbol = ''BTC'', name = ''Bitcoin'', amount = 3, averageBuyPrice = 11000,
          currentPrice = 12000, value = 36000, profitLoss = 3000,
          profitLossPercentage = 100 / 11\<rparr>" 1 13000]
  by (simp add: model_defs)

subsection \<open>Sells and the average buy price\<close>

text \<open>
  Claim C4. A sell of less than the amount held succeeds and leaves the average buy price
  of every currency of the wallet as it was, position by position; in particular the
  currency sold is still held, with the average buy price it had before.
\<close>

theorem sell_keeps_averageBuyPrice:
  assumes "find (\<lambda>c. symbol c = toUpperCase symb) (currencies w) = Some currency"
    and "amt < amount currency"
  shows "\<exists>w' tx c'. sell_handler w symb amt price = (w', Inr tx)
           \<and> map averageBuyPrice (currencies w') = map averageBuyPrice (currencies w)
           \<and> find (\<lambda>c. symbol c = toUpperCase symb) (currencies w') = Some c'
           \<and> averageBuyPrice c' = averageBuyPrice currency"
  using assms
  by (simp add: sell_handler_def Let_def map_update_first find_update_first)

theorem sell_keeps_averageBuyPrice_witness:
  "find (\<lambda>c. symbol c = toUpperCase ''btc'')
     (currencies \<lparr>totalBalance = 0,
        currencies = [\<lparr>symbol = ''BTC'', name = ''Bitcoin'', amount = 3, averageBuyPrice = 11000,
          currentPrice = 12000, value = 36000, profitLoss = 3000,
          profitLossPercentage = 100 / 11\<rparr>],
        portfolioHistory = []\<rparr>)
     = Some \<lparr>symbol = ''BTC'', name = ''Bitcoin'', amount = 3, averageBuyPrice = 11000,
          currentPrice = 12000, value = 36000, profitLoss = 3000,
          profitLossPercentage = 100 / 11\<rparr>
   \<and> (1::real) < amount \<lparr>symbol = ''BTC'', name = ''Bitcoin'', amount = 3, averageBuyPrice = 11000,
          currentPrice = 12000, value = 36000, profitLoss = 3000,
          profitLossPercentage = 100 / 11\<rparr>
   \<and> map averageBuyPrice (currencies (fst (sell_handler \<lparr>totalBalance = 0,
        currencies = [\<lparr>symbol = ''BTC'', name = ''Bitcoin'', amount = 3, averageBuyPrice = 11000,
          currentPrice = 12000, value = 36000, profitLoss = 3000,
          profitLossPercentage = 100 / 11\<rparr>],
        portfolioHistory = []\<rparr> ''btc'' 1 12000))) = [11000]"
  using sell_keeps_averageBuyPrice [of "''btc''" "\<lparr>totalBalance = 0,
        currencies = [\<lparr>symbol = ''BTC'', name = ''Bitcoin'', amount = 3, averageBuyPrice = 11000,
          currentPrice = 12000, value = 36000, profitLoss = 3000,
          profitLossPercentage = 100 / 11\<rparr>],
        portfolioHistory = []\<rparr>" "\<lparr>symbol = ''BTC'', name = ''Bitcoin'', amount = 3, averageBuyPrice = 11000,
          currentPrice = 12000, value = 36000, profitLoss = 3000,
          profitLossPercentage = 100 / 11\<rparr>" 1 12000]
  by (simp add: model_defs)

subsection \<open>Buying more of a held currency\<close>

text \<open>
  Claim C3. When the wallet holds the symbol with an amount above 0, a buy of
  \<open>amt > 0\<close> at \<open>price \<ge> 0\<close> through \<^verbatim>\<open>addOrUpdateCurrency\<close> gives the currency
  the amount \<open>old + amt\<close>, the average buy price \<open>(old * oldAverage + amt * price) / (old + amt)\<close>
  and the current price \<open>price\<close>; value, profit/loss and its percentage are the ones computed
  from the new amount, the new current price and the new average buy price.
\<close>

theorem buy_more_of_held_currency:
  assumes "find (\<lambda>c. symbol c = symb) (currencies w) = Some old"
    and "0 < amount old" and "0 < amt" and "0 \<le> price"
  shows "\<exists>c'. find (\<lambda>c. symbol c = symb) (currencies (addOrUpdateCurrency w symb nm amt price)) = Some c'
           \<and> amount c' = amount old + amt
           \<and> averageBuyPrice c'
               = (amount old * averageBuyPrice old + amt * price) / (amount old + amt)
           \<and> currentPrice c' = price
           \<and> value c' = amount c' * currentPrice c'
           \<and> profitLoss c' = value c' - amount c' * averageBuyPrice c'
           \<and> profitLossPercentage c'
               = (if averageBuyPrice c' > 0
                  then (currentPrice c' - averageBuyPrice c') / averageBuyPrice c' * 100
                  else 0)"
proof -
  have "find (\<lambda>c. symbol c = symb) (currencies (addOrUpdateCurrency w symb nm amt price))
          = Some (buy_more amt price old)"
    using assms(1) by (simp add: addOrUpdateCurrency_def find_update_first)
  then show ?thesis
    by (simp add: buy_more_def Let_def)
qed

theorem buy_more_of_held_currency_witness:
  "find (\<lambda>c. symbol c = ''BTC'')
     (currencies \<lparr>totalBalance = 0,
        currencies = [\<lparr>symbol = ''BTC'', name = ''Bitcoin'', amount = 2, averageBuyPrice = 10000,
          currentPrice = 10000, value = 20000, profitLoss = 0, profitLossPercentage = 0\<rparr>],
        portfolioHistory = []\<rparr>)
     = Some \<lparr>symbol = ''BTC'', name = ''Bitcoin'', amount = 2, averageBuyPrice = 10000,
          currentPrice = 10000, value = 20000, profitLoss = 0, profitLossPercentage = 0\<rparr>
   \<and> (0::real) < amount \<lparr>symbol = ''BTC'', name = ''Bitcoin'', amount = 2, averageBuyPrice = 10000,
          currentPrice = 10000, value = 20000, profitLoss = 0, profitLossPercentage = 0\<rparr>
   \<and> (0::real) < 1 \<and> (0::real) \<le> 13000
   \<and> find (\<lambda>c. symbol c = ''BTC'')
       (currencies (addOrUpdateCurrency \<lparr>totalBalance = 0,
        currencies = [\<lparr>symbol = ''BTC'', name = ''Bitcoin'', amount = 2, averageBuyPrice = 10000,
          currentPrice = 10000, value = 20000, profitLoss = 0, profitLossPercentage = 0\<rparr>],
        portfolioHistory = []\<rparr> ''BTC'' ''Bitcoin'' 1 13000))
     = Some \<lparr>symbol = ''BTC'', name = ''Bitcoin'', amount = 3, averageBuyPrice = 11000,
          currentPrice = 13000, value = 39000, profitLoss = 6000,
          profitLossPercentage = 200 / 11\<rparr>"
  using buy_more_of_held_currency [of "''BTC''" "\<lparr>totalBalance = 0,
        currencies = [\<lparr>symbol = ''BTC'', name = ''Bitcoin'', amount = 2, averageBuyPrice = 10000,
          currentPrice = 10000, value = 20000, profitLoss = 0, profitLossPercentage = 0\<rparr>],
        portfolioHistory = []\<rparr>" "\<lparr>symbol = ''BTC'', name = ''Bitcoin'', amount = 2, averageBuyPrice = 10000,
          currentPrice = 10000, value = 20000, profitLoss = 0, profitLossPercentage = 0\<rparr>"
        1 13000 "''Bitcoin''"]
  by (simp add: model_defs)

subsection \<open>Price updates\<close>

text \<open>
  Claim C10. When the price object maps the symbol of a held currency to exactly 0,
  \<^verbatim>\<open>updateCurrencyPrices\<close> leaves that currency as it was, with all its fields:
  nothing is recomputed against the zero price.
\<close>

theorem zero_price_ignored:
  assumes "i < length (currencies w)"
    and "priceData (symbol (currencies w ! i)) = Some 0"
  shows "length (currencies (updateCurrencyPrices w priceData)) = length (currencies w)
         \<and> currencies (updateCurrencyPrices w priceData) ! i = currencies w ! i"
  using assms by (simp add: updateCurrencyPrices_def update_price_def)

theorem zero_price_ignored_witness:
  "(0::nat) < length (currencies \<lparr>totalBalance = 0,
        currencies = [\<lparr>symbol = ''BTC'', name = ''Bitcoin'', amount = 3, averageBuyPrice = 11000,
          currentPrice = 12000, value = 36000, profitLoss = 3000,
          profitLossPercentage = 100 / 11\<rparr>],
        portfolioHistory = []\<rparr>)
   \<and> [''BTC'' \<mapsto> (0::real)] (symbol (currencies \<lparr>totalBalance = 0,
        currencies = [\<lparr>symbol = ''BTC'', name = ''Bitcoin'', amount = 3, averageBuyPrice = 11000,
          currentPrice = 12000, value = 36000, profitLoss = 3000,
          profitLossPercentage = 100 / 11\<rparr>],
        portfolioHistory = []\<rparr> ! 0)) = Some 0
   \<and> currencies (updateCurrencyPrices \<lparr>totalBalance = 0,
        currencies = [\<lparr>symbol = ''BTC'', name = ''Bitcoin'', amount = 3, averageBuyPrice = 11000,
          currentPrice = 12000, value = 36000, profitLoss = 3000,
          profitLossPercentage = 100 / 11\<rparr>],
        portfolioHistory = []\<rparr> [''BTC'' \<mapsto> 0]) ! 0
     = \<lparr>symbol = ''BTC'', name = ''Bitcoin'', amount = 3, averageBuyPrice = 11000,
          currentPrice = 12000, value = 36000, profitLoss = 3000,
          profitLossPercentage = 100 / 11\<rparr>"
  using zero_price_ignored [of 0 "\<lparr>totalBalance = 0,
        currencies = [\<lparr>symbol = ''BTC'', name = ''Bitcoin'', amount = 3, averageBuyPrice = 11000,
          currentPrice = 12000, value = 36000, profitLoss = 3000,
          profitLossPercentage = 100 / 11\<rparr>],
        portfolioHistory = []\<rparr>" "[''BTC'' \<mapsto> 0]"]
  by simp

text \<open>
  A price of 0 is not applied: with BTC mapped to 0 the current price stays 12000.
\<close>

theorem price_update_zero_counterexample:
  "[''BTC'' \<mapsto> (0::real)] ''BTC'' = Some 0
   \<and> map symbol (currencies \<lparr>totalBalance = 0,
        currencies = [\<lparr>symbol = ''BTC'', name = ''Bitcoin'', amount = 3, averageBuyPrice = 11000,
          currentPrice = 12000, value = 36000, profitLoss = 3000,
          profitLossPercentage = 100 / 11\<rparr>],
        portfolioHistory = []\<rparr>) = [''BTC'']
   \<and> map currentPrice (currencies (updateCurrencyPrices \<lparr>totalBalance = 0,
        currencies = [\<lparr>symbol = ''BTC'', name = ''Bitcoin'', amount = 3, averageBuyPrice = 11000,
          currentPrice = 12000, value = 36000, profitLoss = 3000,
          profitLossPercentage = 100 / 11\<rparr>],
        portfolioHistory = []\<rparr> [''BTC'' \<mapsto> 0])) = [12000]
   \<and> (12000::real) \<noteq> 0"
  by (simp add: model_defs)

text \<open>
  Claim C6, as amended. For the currency at any position of the list: if the price object
  maps its symbol to a price above 0, the current price becomes that price and value,
  profit/loss and percentage are recomputed from it (the other fields stay); if the price
  object has no entry for its symbol, the currency is left as it was.
\<close>

theorem price_update:
  assumes "i < length (currencies w)"
  shows "length (currencies (updateCurrencyPrices w priceData)) = length (currencies w)
    \<and> (\<forall>newPrice. priceData (symbol (currencies w ! i)) = Some newPrice \<and> 0 < newPrice \<longrightarrow>
          currencies (updateCurrencyPrices w priceData) ! i
            = (currencies w ! i)
                \<lparr>currentPrice := newPrice,
                 value := amount (currencies w ! i) * newPrice,
                 profitLoss := amount (currencies w ! i) * newPrice
                               - amount (currencies w ! i) * averageBuyPrice (currencies w ! i),
                 profitLossPercentage :=
                   (if averageBuyPrice (currencies w ! i) > 0
                    then (newPrice - averageBuyPrice (currencies w ! i))
                         / averageBuyPrice (currencies w ! i) * 100
                    else 0)\<rparr>)
    \<and> (priceData (symbol (currencies w ! i)) = None \<longrightarrow>
          currencies (updateCurrencyPrices w priceData) ! i = currencies w ! i)"
  using assms by (simp add: updateCurrencyPrices_def update_price_def Let_def)

theorem price_update_witness:
  "(1::nat) < length (currencies \<lparr>totalBalance = 0,
        currencies = [\<lparr>symbol = ''BTC'', name = ''Bitcoin'', amount = 3, averageBuyPrice = 11000,
            currentPrice = 13000, value = 39000, profitLoss = 6000,
            profitLossPercentage = 200 / 11\<rparr>,
          \<lparr>symbol = ''ETH'', name = ''Ethereum'', amount = 10, averageBuyPrice = 2000,
            currentPrice = 2000, value = 20000, profitLoss = 0, profitLossPercentage = 0\<rparr>],
        portfolioHistory = []\<rparr>)
   \<and> [''BTC'' \<mapsto> (12000::real)] ''BTC'' = Some 12000 \<and> (0::real) < 12000
   \<and> [''BTC'' \<mapsto> (12000::real)] ''ETH'' = None
   \<and> currencies (updateCurrencyPrices \<lparr>totalBalance = 0,
        currencies = [\<lparr>symbol = ''BTC'', name = ''Bitcoin'', amount = 3, averageBuyPrice = 11000,
            currentPrice = 13000, value = 39000, profitLoss = 6000,
            profitLossPercentage = 200 / 11\<rparr>,
          \<lparr>symbol = ''ETH'', name = ''Ethereum'', amount = 10, averageBuyPrice = 2000,
            currentPrice = 2000, value = 20000, profitLoss = 0, profitLossPercentage = 0\<rparr>],
        portfolioHistory = []\<rparr> [''BTC'' \<mapsto> 12000])
     = [\<lparr>symbol = ''BTC'', name = ''Bitcoin'', amount = 3, averageBuyPrice = 11000,
            currentPrice = 12000, value = 36000, profitLoss = 3000,
            profitLossPercentage = 100 / 11\<rparr>,
        \<lparr>symbol = ''ETH'', name = ''Ethereum'', amount = 10, averageBuyPrice = 2000,
            currentPrice = 2000, value = 20000, profitLoss = 0, profitLossPercentage = 0\<rparr>]"
  using price_update [of 0 "\<lparr>totalBalance = 0,
        currencies = [\<lparr>symbol = ''BTC'', name = ''Bitcoin'', amount = 3, averageBuyPrice = 11000,
            currentPrice = 13000, value = 39000, profitLoss = 6000,
            profitLossPercentage = 200 / 11\<rparr>,
          \<lparr>symbol = ''ETH'', name = ''Ethereum'', amount = 10, averageBuyPrice = 2000,
            currentPrice = 2000, value = 20000, profitLoss = 0, profitLossPercentage = 0\<rparr>],
        portfolioHistory = []\<rparr>" "[''BTC'' \<mapsto> 12000]"]
    price_update [of 1 "\<lparr>totalBalance = 0,
        currencies = [\<lparr>symbol = ''BTC'', name = ''Bitcoin'', amount = 3, averageBuyPrice = 11000,
            currentPrice = 13000, value = 39000, profitLoss = 6000,
            profitLossPercentage = 200 / 11\<rparr>,
          \<lparr>symbol = ''ETH'', name = ''Ethereum'', amount = 10, averageBuyPrice = 2000,
            currentPrice = 2000, value = 20000, profitLoss = 0, profitLossPercentage = 0\<rparr>],
        portfolioHistory = []\<rparr>" "[''BTC'' \<mapsto> 12000]"]
  by (simp add: model_defs)

subsection \<open>Two buys of a new symbol\<close>

text \<open>
  Claim C9. Let the wallet hold no currency with the symbol, and let the symbol be in the
  form the schema stores (upper-case and trimmed, as every symbol that \<^verbatim>\<open>POST /buy\<close>
  passes on is). For two buys with amounts above 0 and prices of at least 0, the average
  buy price after the first buy followed by the second equals the average buy price after
  the second followed by the first, and both are the mean of the two prices weighted by
  the amounts, \<open>(amount1 * price1 + amount2 * price2) / (amount1 + amount2)\<close>.
\<close>

theorem two_buys_weighted_mean:
  assumes "find (\<lambda>c. symbol c = symb) (currencies w) = None"
    and "toUpperCase (trim symb) = symb"
    and "0 < amount1" and "0 < amount2" and "0 \<le> price1" and "0 \<le> price2"
  shows "\<exists>c12 c21.
           find (\<lambda>c. symbol c = symb)
             (currencies (addOrUpdateCurrency (addOrUpdateCurrency w symb nm1 amount1 price1)
                            symb nm2 amount2 price2)) = Some c12
         \<and> find (\<lambda>c. symbol c = symb)
             (currencies (addOrUpdateCurrency (addOrUpdateCurrency w symb nm2 amount2 price2)
                            symb nm1 amount1 price1)) = Some c21
         \<and> averageBuyPrice c12 = averageBuyPrice c21
         \<and> averageBuyPrice c12 = (amount1 * price1 + amount2 * price2) / (amount1 + amount2)"
proof -
  have "averageBuyPrice (buy_more amount2 price2 (new_currency symb nm1 amount1 price1))
          = (amount1 * price1 + amount2 * price2) / (amount1 + amount2)"
    by (simp add: buy_more_def new_currency_def Let_def)
  moreover
  have "averageBuyPrice (buy_more amount1 price1 (new_currency symb nm2 amount2 price2))
          = (amount1 * price1 + amount2 * price2) / (amount1 + amount2)"
    by (simp add: buy_more_def new_currency_def Let_def add.commute)
  ultimately show ?thesis
    using second_buy [OF assms(1,2)] by simp
qed

theorem two_buys_weighted_mean_witness:
  "find (\<lambda>c. symbol c = ''BTC'') (currencies new_wallet) = None
   \<and> toUpperCase (trim ''BTC'') = ''BTC''
   \<and> (0::real) < 2 \<and> (0::real) < 1 \<and> (0::real) \<le> 10000 \<and> (0::real) \<le> 13000
   \<and> map averageBuyPrice
        (currencies (addOrUpdateCurrency (addOrUpdateCurrency new_wallet ''BTC'' ''Bitcoin'' 2 10000)
                       ''BTC'' ''Bitcoin'' 1 13000)) = [11000]
   \<and> map averageBuyPrice
        (currencies (addOrUpdateCurrency (addOrUpdateCurrency new_wallet ''BTC'' ''Bitcoin'' 1 13000)
                       ''BTC'' ''Bitcoin'' 2 10000)) = [11000]"
  using two_buys_weighted_mean [of "''BTC''" new_wallet 2 1 10000 13000 "''Bitcoin''" "''Bitcoin''"]
  by (simp add: model_defs)

subsection \<open>Portfolio snapshots\<close>

text \<open>
  Claim C8. For any two readings \<open>now\<close> and \<open>now'\<close> of the clock and any calendar,
  \<^verbatim>\<open>recordPortfolioSnapshot\<close> appends the snapshot with date \<open>now\<close>, total value
  \<^verbatim>\<open>totalPortfolioValue\<close> and one entry (symbol, amount, current price as price, value)
  for each currency held, in order; then it keeps exactly the records of the extended
  list, the new one included, whose date is not strictly earlier than the date 365
  calendar days before \<open>now'\<close>. The currencies are not touched. The claim's single
  \<open>now\<close> is the case \<open>now' = now\<close>.
\<close>

theorem snapshot_appended_then_pruned:
  "portfolioHistory (recordPortfolioSnapshot minusDays w now now')
     = filter (\<lambda>record. \<not> date record < minusDays 365 now')
         (portfolioHistory w @
          [\<lparr>date = now, totalValue = totalPortfolioValue w,
            h_currencies = map (\<lambda>c. \<lparr>h_symbol = symbol c, h_amount = amount c,
                                      h_price = currentPrice c, h_value = value c\<rparr>)
                             (currencies w)\<rparr>])
   \<and> currencies (recordPortfolioSnapshot minusDays w now now') = currencies w"
  by (simp add: recordPortfolioSnapshot_def snapshot_of_def Let_def not_less)

subsection \<open>Wallets made by buying, selling and updating prices\<close>

text \<open>
  Each operation keeps \<open>wallet_ok\<close>: a buy request that passes validation has an amount
  and a price above 0; the sell handler removes the currency when its amount is no longer
  above 0; a price update changes neither amount nor average buy price.
\<close>

lemma set_update_first_find:
  assumes "find P xs = Some x" and "y \<in> set (update_first P f xs)"
  shows "y \<in> set xs \<or> y = f x"
  using assms by (induction xs) (auto split: if_splits)

lemma position_ok_new_currency:
  "0 < amt \<Longrightarrow> 0 \<le> price \<Longrightarrow> position_ok (new_currency symb nm amt price)"
  by (simp add: position_ok_def new_currency_def)

lemma position_ok_buy_more:
  assumes "position_ok c" and "0 < amt" and "0 \<le> price"
  shows "position_ok (buy_more amt price c)"
proof -
  from assms have "0 \<le> amount c * averageBuyPrice c + amt * price"
    by (simp add: position_ok_def)
  moreover from assms have "0 < amount c + amt"
    by (simp add: position_ok_def)
  ultimately show ?thesis
    by (simp add: position_ok_def buy_more_def Let_def)
qed

lemma position_ok_update_price:
  "position_ok c \<Longrightarrow> position_ok (update_price priceData c)"
  by (simp add: position_ok_def update_price_def Let_def split: option.splits)

lemma position_ok_sell_currency:
  "position_ok c \<Longrightarrow> \<not> amount c - amt \<le> 0 \<Longrightarrow> position_ok (sell_currency amt c)"
  by (simp add: position_ok_def sell_currency_def Let_def)

lemma wallet_ok_addOrUpdateCurrency:
  assumes "wallet_ok w" and "0 < amt" and "0 \<le> price"
  shows "wallet_ok (addOrUpdateCurrency w symb nm amt price)"
proof (cases "find (\<lambda>c. symbol c = symb) (currencies w)")
  case None
  with assms show ?thesis
    by (simp add: wallet_ok_def addOrUpdateCurrency_def position_ok_new_currency)
next
  case (Some c)
  then have "c \<in> set (currencies w)"
    by (auto simp: find_Some_iff)
  with assms have "position_ok (buy_more amt price c)"
    by (simp add: wallet_ok_def list_all_iff position_ok_buy_more)
  with assms(1) Some show ?thesis
    by (auto simp: wallet_ok_def addOrUpdateCurrency_def list_all_iff
        dest: set_update_first_find)
qed

lemma wallet_ok_post_buy:
  "wallet_ok w \<Longrightarrow> wallet_ok (fst (post_buy w symb nm amt price fiatAmount))"
  by (simp add: post_buy_def buy_handler_def buy_validation_def wallet_ok_addOrUpdateCurrency)

lemma wallet_ok_sell_handler:
  assumes "wallet_ok w"
  shows "wallet_ok (fst (sell_handler w symb amt price))"
proof (cases "find (\<lambda>c. symbol c = toUpperCase symb) (currencies w)")
  case None
  with assms show ?thesis
    by (simp add: sell_handler_def)
next
  case (Some c)
  then have c: "c \<in> set (currencies w)" "symbol c = toUpperCase symb"
    by (auto simp: find_Some_iff)
  show ?thesis
  proof (cases "amount c - amt \<le> 0")
    case True
    have "y \<in> set (currencies w)"
      if "y \<in> set (update_first (\<lambda>c. symbol c = toUpperCase symb) (sell_currency amt)
                      (currencies w))"
        and "symbol y \<noteq> toUpperCase symb" for y
      using set_update_first_find [OF Some that(1)] that(2) c(2) by auto
    with assms Some True show ?thesis
      by (auto simp: sell_handler_def Let_def wallet_ok_def list_all_iff)
  next
    case False
    with assms c have "position_ok (sell_currency amt c)"
      by (simp add: wallet_ok_def list_all_iff position_ok_sell_currency)
    with assms Some False show ?thesis
      by (auto simp: sell_handler_def Let_def wallet_ok_def list_all_iff
          dest: set_update_first_find)
  qed
qed

lemma wallet_ok_post_sell:
  "wallet_ok w \<Longrightarrow> wallet_ok (fst (post_sell w symb amt price))"
  by (simp add: post_sell_def wallet_ok_sell_handler)

lemma wallet_ok_updateCurrencyPrices:
  "wallet_ok w \<Longrightarrow> wallet_ok (updateCurrencyPrices w priceData)"
  by (simp add: wallet_ok_def updateCurrencyPrices_def list_all_iff position_ok_update_price)

lemma wallet_ok_apply_operation:
  "wallet_ok w \<Longrightarrow> wallet_ok (apply_operation w operation)"
  by (cases operation)
    (simp_all add: wallet_ok_post_buy wallet_ok_post_sell wallet_ok_updateCurrencyPrices)

lemma wallet_ok_foldl:
  "wallet_ok w \<Longrightarrow> wallet_ok (foldl apply_operation w ops)"
  by (induction ops arbitrary: w) (simp_all add: wallet_ok_apply_operation)

lemma wallet_ok_run: "wallet_ok (run ops)"
  unfolding run_def by (rule wallet_ok_foldl) (simp add: wallet_ok_def new_wallet_def)

lemma sell_all_removes:
  assumes "find (\<lambda>c. symbol c = toUpperCase symb) (currencies w) = Some c"
  shows "\<exists>w' tx. sell_handler w symb (amount c) price = (w', Inr tx)
           \<and> toUpperCase symb \<notin> symbol ` set (currencies w')"
  using assms by (auto simp: sell_handler_def Let_def)

lemma example_run:
  "run [Buy ''btc'' ''Bitcoin'' 2 10000 20000, Buy ''btc'' ''Bitcoin'' 1 13000 13000,
        Prices [''BTC'' \<mapsto> 12000], Sell ''btc'' 1 12000]
     = \<lparr>totalBalance = 0,
        currencies = [\<lparr>symbol = ''BTC'', name = ''Bitcoin'', amount = 2, averageBuyPrice = 11000,
          currentPrice = 12000, value = 24000, profitLoss = 2000,
          profitLossPercentage = 100 / 11\<rparr>],
        portfolioHistory = []\<rparr>"
  by (simp add: model_defs)

text \<open>
  Claim C5. In the wallet made from the new wallet by any sequence of buy requests, sell
  requests and price updates, every currency has an amount above 0. And for every wallet
  holding a symbol, selling exactly the amount held succeeds and leaves no currency with
  that symbol in the wallet.
\<close>

theorem held_amounts_positive:
  "(\<forall>c \<in> set (currencies (run ops)). 0 < amount c)
   \<and> (\<forall>c. find (\<lambda>c. symbol c = toUpperCase symb) (currencies w) = Some c
        \<longrightarrow> (\<exists>w' tx. sell_handler w symb (amount c) price = (w', Inr tx)
              \<and> toUpperCase symb \<notin> symbol ` set (currencies w')))"
  using wallet_ok_run [of ops] sell_all_removes [of symb w _ price]
  by (simp add: wallet_ok_def list_all_iff position_ok_def)

theorem held_amounts_positive_witness:
  "map amount (currencies
        (run [Buy ''btc'' ''Bitcoin'' 2 10000 20000, Buy ''btc'' ''Bitcoin'' 1 13000 13000,
              Prices [''BTC'' \<mapsto> 12000], Sell ''btc'' 1 12000])) = [2]
   \<and> (0::real) < 2
   \<and> find (\<lambda>c. symbol c = toUpperCase ''btc'') (currencies
        (run [Buy ''btc'' ''Bitcoin'' 2 10000 20000, Buy ''btc'' ''Bitcoin'' 1 13000 13000,
              Prices [''BTC'' \<mapsto> 12000], Sell ''btc'' 1 12000]))
       = Some \<lparr>symbol = ''BTC'', name = ''Bitcoin'', amount = 2, averageBuyPrice = 11000,
          currentPrice = 12000, value = 24000, profitLoss = 2000,
          profitLossPercentage = 100 / 11\<rparr>
   \<and> currencies (fst (sell_handler
        (run [Buy ''btc'' ''Bitcoin'' 2 10000 20000, Buy ''btc'' ''Bitcoin'' 1 13000 13000,
              Prices [''BTC'' \<mapsto> 12000], Sell ''btc'' 1 12000]) ''btc'' 2 12000)) = []"
  using held_amounts_positive
    [of "[Buy ''btc'' ''Bitcoin'' 2 10000 20000, Buy ''btc'' ''Bitcoin'' 1 13000 13000,
          Prices [''BTC'' \<mapsto> 12000], Sell ''btc'' 1 12000]" "''btc''"
        "run [Buy ''btc'' ''Bitcoin'' 2 10000 20000, Buy ''btc'' ''Bitcoin'' 1 13000 13000,
              Prices [''BTC'' \<mapsto> 12000], Sell ''btc'' 1 12000]" 12000]
  unfolding example_run
  by (simp add: sell_handler_def sell_currency_def toUpperCase_def upper_char_def)

subsection \<open>Rounding\<close>


lemma round_half_even_near: "\<bar>of_int (round_half_even q) - q\<bar> \<le> 1/2"
  unfolding round_half_even_def Let_def by (auto simp: abs_if) linarith+


lemma round64_zero [simp]: "round64 0 = 0"
  by (simp add: round64_def)

lemma binade_bounds:
  assumes "0 < y"
  shows "2 powi binade y \<le> y \<and> y < 2 powi (binade y + 1)"
proof (cases "1 \<le> y")
  case True
  define n where "n = \<lfloor>y\<rfloor>"
  have n: "0 < n" "of_int n \<le> y" "y < of_int n + 1"
    using True by (auto simp: n_def)
  from bitlen_bounds [OF n(1)]
  have b: "2 ^ nat (bitlen n - 1) \<le> n" "n < 2 ^ nat (bitlen n)" by auto
  have pos: "1 \<le> bitlen n"
    using n(1) by (simp add: bitlen_alt_def)
  have e1: "(2::real) powi (bitlen n - 1) = 2 ^ nat (bitlen n - 1)"
    using pos by (simp add: power_int_def)
  have e2: "(2::real) powi (bitlen n - 1 + 1) = 2 ^ nat (bitlen n)"
    using pos by (simp add: power_int_def)
  have "real_of_int n + 1 \<le> 2 ^ nat (bitlen n)"
    using b(2) by (metis of_int_1 of_int_add of_int_le_iff of_int_numeral of_int_power zless_imp_add1_zle)
  then have hi: "y < 2 ^ nat (bitlen n)"
    using n(3) by linarith
  have "(2::real) ^ nat (bitlen n - 1) \<le> of_int n"
    using b(1) by (metis of_int_le_iff of_int_numeral of_int_power)
  then have lo: "2 ^ nat (bitlen n - 1) \<le> y"
    using n(2) by linarith
  have "binade y = bitlen n - 1"
    using True by (simp add: binade_def n_def)
  with lo hi e1 e2 show ?thesis
    by simp
next
  case False
  define z where "z = 1 / y"
  define m where "m = \<lceil>z\<rceil> - 1"
  have z: "1 < z" "y = 1 / z"
    using assms False by (simp_all add: z_def)
  have m: "0 < m" "of_int m < z" "z \<le> of_int m + 1"
    using z(1) by (simp_all add: m_def less_ceiling_iff) linarith
  from bitlen_bounds [OF m(1)]
  have b: "2 ^ nat (bitlen m - 1) \<le> m" "m < 2 ^ nat (bitlen m)" by auto
  have pos: "1 \<le> bitlen m"
    using m(1) by (simp add: bitlen_alt_def)
  have "real_of_int m + 1 \<le> 2 ^ nat (bitlen m)"
    using b(2) by (metis of_int_1 of_int_add of_int_le_iff of_int_numeral of_int_power zless_imp_add1_zle)
  then have up: "z \<le> 2 ^ nat (bitlen m)"
    using m(3) by linarith
  have "(2::real) ^ nat (bitlen m - 1) \<le> of_int m"
    using b(1) by (metis of_int_le_iff of_int_numeral of_int_power)
  then have lo: "2 ^ nat (bitlen m - 1) < z"
    using m(2) by linarith
  have e1: "(2::real) powi (- bitlen m) = 1 / 2 ^ nat (bitlen m)"
    using pos by (simp add: power_int_def field_simps)
  have e2: "(2::real) powi (- bitlen m + 1) = 1 / 2 ^ nat (bitlen m - 1)"
    using pos by (simp add: power_int_def field_simps nat_diff_distrib)
  have le: "1 / 2 ^ nat (bitlen m) \<le> 1 / z"
    using up z(1) by (simp add: field_simps)
  have less: "1 / z < 1 / 2 ^ nat (bitlen m - 1)"
    using lo z(1) by (simp add: field_simps)
  have "binade y = - bitlen m"
    using False by (simp add: binade_def m_def z_def)
  with le less e1 e2 z(2) show ?thesis
    by simp
qed

lemma round64_near:
  "\<bar>round64 x - x\<bar> \<le> 2 powi (max (binade \<bar>x\<bar>) (- 1022) - 53)"
proof (cases "x = 0")
  case True
  then show ?thesis by simp
next
  case False
  define e where "e = max (binade \<bar>x\<bar>) (- 1022)"
  define u :: real where "u = 2 powi (e - 52)"
  define q where "q = \<bar>x\<bar> / u"
  have u: "0 < u" by (simp add: u_def)
  have "round64 x = sgn x * of_int (round_half_even q) * u"
    using False by (simp add: round64_def Let_def e_def u_def q_def)
  moreover have "x = sgn x * q * u"
    using u by (simp add: q_def sgn_if)
  ultimately have "round64 x - x = sgn x * u * (of_int (round_half_even q) - q)"
    by (simp add: algebra_simps)
  then have "\<bar>round64 x - x\<bar> = u * \<bar>of_int (round_half_even q) - q\<bar>"
    using u False by (simp add: abs_mult)
  also have "\<dots> \<le> u * (1 / 2)"
    using u round_half_even_near [of q] by (intro mult_left_mono) auto
  also have "\<dots> = 2 powi (e - 53)"
    by (simp add: u_def power_int_diff)
  finally show ?thesis
    by (simp add: e_def)
qed

lemma round64_pos:
  assumes "2 powi (- 1022) \<le> x"
  shows "0 < round64 x"
proof -
  have x: "0 < x"
    using assms by (rule less_le_trans [rotated]) simp
  define e where "e = binade x"
  have b: "2 powi e \<le> x" "x < 2 powi (e + 1)"
    using binade_bounds [OF x] by (simp_all add: e_def)
  have e: "- 1022 \<le> e"
  proof (rule ccontr)
    assume "\<not> - 1022 \<le> e"
    then have "e + 1 \<le> - 1022" by simp
    then have "(2::real) powi (e + 1) \<le> 2 powi (- 1022)"
      by (intro power_int_increasing) auto
    with assms b(2) show False by linarith
  qed
  define u :: real where "u = 2 powi (e - 52)"
  have u: "0 < u" by (simp add: u_def)
  have "2 powi e = u * 2 ^ 52"
    by (simp add: u_def power_int_diff)
  then have "1 \<le> x / u"
    using b(1) u by (simp add: field_simps) 
  then have "1 \<le> \<lfloor>x / u\<rfloor>"
    by (simp add: le_floor_iff)
  then have "0 < round_half_even (x / u)"
    by (simp add: round_half_even_def Let_def)
  moreover have "round64 x = of_int (round_half_even (x / u)) * u"
    using x e by (simp add: round64_def Let_def e_def u_def max_def)
  ultimately show ?thesis
    using u by simp
qed

lemma smallest_amount: "2 powi (- 1022) \<le> round64 0.000001"
  by code_simp

text \<open>
  The divisor \<^verbatim>\<open>totalAmount\<close> of a buy that passed validation, on a held amount that is
  not negative, is above 0.
\<close>

lemma dbl_totalAmount_pos:
  assumes "0 \<le> a" and "round64 0.000001 \<le> amt"
  shows "0 < fadd a amt"
proof -
  have "2 powi (- 1022) \<le> a + amt"
    using assms smallest_amount by linarith
  then show ?thesis
    unfolding fadd_def by (rule round64_pos)
qed

subsection \<open>Totals\<close>





lemma fsub_self [simp]: "fsub a a = 0"
  by (simp add: fsub_def)


lemma symbol_dbl_sell_currency [simp]: "symbol (dbl_sell_currency amt c) = symbol c"
  by (simp add: dbl_sell_currency_def Let_def)

















end
